theory Spec2Isabelle
  imports Complex_Main
begin

section \<open>The ASRE rating engine\<close>

text \<open>
  The rating engine lives in the React component \<open>ASREDemo\<close>: a handful of pure
  helper functions (\<open>std\<close>, \<open>normalize\<close>, \<open>calculateEMA\<close>, \<open>calculateMACD\<close>,
  \<open>calculateBollingerBands\<close>, \<open>calculateRSI\<close>, \<open>calculateSharpeRatio\<close>,
  \<open>calculateMaxDrawdown\<close>, \<open>enhancedSentimentScore\<close>, \<open>toStars\<close>) and the body of
  \<open>handleSearch\<close>, which extracts the inputs from the fetched JSON and computes the
  rating object.

  JavaScript numbers are modelled as mathematical reals. The model is exact wherever the
  source divides by a non-zero number and no rounding error matters; the only divisions
  whose divisor the source does not guard are divisions by a closing price or by the current
  price, and a theorem below that reads such a quotient assumes positive closes.
\<close>

subsection \<open>Numeric helpers\<close>

text \<open>
  \<open>arr.reduce((a, b) => a + b, 0)\<close> is a left fold; \<open>arr.length - 1 || 1\<close> is
  \<open>1\<close> exactly when \<open>arr.length - 1\<close> is \<open>0\<close>.
\<close>

definition std :: "real list \<Rightarrow> real" where
  "std arr =
     (let mean = foldl (\<lambda>a b. a + b) 0 arr / real (length arr);
          variance = foldl (\<lambda>a b. a + (b - mean) ^ 2) 0 arr
                       / (if real (length arr) - 1 = 0 then 1 else real (length arr) - 1)
      in sqrt variance)"

definition normalize_js :: "real \<Rightarrow> real \<Rightarrow> real \<Rightarrow> real" where
  "normalize_js x mn mx =
     (if mx = mn then 0.5 else max 0 (min 1 ((x - mn) / (mx - mn))))"

text \<open>
  The loop of \<open>calculateEMA\<close>, from index 1 on. On an empty array the source reads
  \<open>data[0]\<close> out of range and returns a one-element array holding \<open>undefined\<close>;
  \<open>calculateMACD\<close>, its only caller, passes arrays of at least 26 numbers, and the
  model returns the empty list there.
\<close>

fun ema_loop :: "real \<Rightarrow> real \<Rightarrow> real list \<Rightarrow> real list" where
  "ema_loop k ema [] = []"
| "ema_loop k ema (x # xs) = (let ema' = x * k + ema * (1 - k) in ema' # ema_loop k ema' xs)"

definition calculateEMA :: "real list \<Rightarrow> real \<Rightarrow> real list" where
  "calculateEMA data period =
     (let k = 2 / (period + 1)
      in case data of [] \<Rightarrow> [] | d0 # rest \<Rightarrow> d0 # ema_loop k d0 rest)"

record macd_t =
  m_macd :: real
  m_signal :: real
  m_histogram :: real

definition calculateMACD :: "real list \<Rightarrow> macd_t" where
  "calculateMACD prices =
     (if length prices < 26 then \<lparr>m_macd = 0, m_signal = 0, m_histogram = 0\<rparr>
      else
        let ema12 = calculateEMA prices 12;
            ema26 = calculateEMA prices 26;
            macdLine = map (\<lambda>i. ema12 ! i - ema26 ! i) [0..<length ema12];
            signalLine = calculateEMA macdLine 9;
            hist = map (\<lambda>i. macdLine ! i - signalLine ! i) [0..<length macdLine]
        in \<lparr>m_macd = last macdLine, m_signal = last signalLine, m_histogram = last hist\<rparr>)"

text \<open>\<open>arr.slice(-n)\<close>: the last \<open>n\<close> elements, the whole array when \<open>n\<close> is 0
  or exceeds the length.\<close>

definition slice_last :: "nat \<Rightarrow> 'a list \<Rightarrow> 'a list" where
  "slice_last n xs = (if n = 0 then xs else drop (length xs - n) xs)"

record bands =
  upper :: real
  middle :: real
  lower :: real

definition calculateBollingerBands :: "real list \<Rightarrow> nat \<Rightarrow> real \<Rightarrow> bands" where
  "calculateBollingerBands prices period stdDev =
     (if length prices < period then \<lparr>upper = 0, middle = 0, lower = 0\<rparr>
      else
        let slice = slice_last period prices;
            sma = foldl (\<lambda>a b. a + b) 0 slice / real period;
            variance = foldl (\<lambda>sum val. sum + (val - sma) ^ 2) 0 slice / real period;
            stdDeviation = sqrt variance
        in \<lparr>upper = sma + stdDev * stdDeviation, middle = sma,
            lower = sma - stdDev * stdDeviation\<rparr>)"

text \<open>
  One iteration of the loop of \<open>calculateRSI\<close> at index \<open>i\<close>; the state is
  \<open>(gains, losses)\<close>. The loop starts at \<open>prices.length - period\<close>, which is at least 1
  behind the length guard, so \<open>prices[i - 1]\<close> is in range.
\<close>

fun rsi_step :: "real list \<Rightarrow> real \<times> real \<Rightarrow> nat \<Rightarrow> real \<times> real" where
  "rsi_step prices (gains, losses) i =
     (let change = prices ! i - prices ! (i - 1)
      in if change > 0 then (gains + change, losses) else (gains, losses - change))"

definition calculateRSI :: "real list \<Rightarrow> nat \<Rightarrow> real" where
  "calculateRSI prices period =
     (if length prices < period + 1 then 50
      else
        let gl = foldl (rsi_step prices) (0, 0) [length prices - period ..< length prices];
            avgGain = fst gl / real period;
            avgLoss = snd gl / real period
        in if avgLoss = 0 then 100
           else let rs = avgGain / avgLoss in 100 - 100 / (1 + rs))"

definition calculateSharpeRatio :: "real list \<Rightarrow> real \<Rightarrow> real" where
  "calculateSharpeRatio rets riskFreeRate =
     (if length rets = 0 then 0
      else
        let avgReturn = foldl (\<lambda>a b. a + b) 0 rets / real (length rets);
            annualizedReturn = avgReturn * 252;
            volatility = std rets * sqrt 252
        in if volatility = 0 then 0 else (annualizedReturn - riskFreeRate) / volatility)"

text \<open>One iteration of the loop of \<open>calculateMaxDrawdown\<close>; the state is
  \<open>(maxDD, peak)\<close>.\<close>

fun dd_step :: "real \<times> real \<Rightarrow> real \<Rightarrow> real \<times> real" where
  "dd_step (maxDD, peak) p =
     (let peak' = (if p > peak then p else peak);
          dd = (peak' - p) / peak'
      in (if dd > maxDD then dd else maxDD, peak'))"

definition calculateMaxDrawdown :: "real list \<Rightarrow> real" where
  "calculateMaxDrawdown prices =
     (case prices of [] \<Rightarrow> 0 | p0 # rest \<Rightarrow> fst (foldl dd_step (0, p0) rest))"

subsection \<open>Sentiment\<close>

text \<open>One period of the analyst recommendation trend; the counts are non-negative
  integers, and a count of 0 is falsy.\<close>

record recommendation =
  strongBuy :: nat
  buy :: nat
  hold :: nat
  sell :: nat
  strongSell :: nat

fun sentiment_step :: "real \<times> real \<Rightarrow> recommendation \<Rightarrow> real \<times> real" where
  "sentiment_step (score, count) r =
     (let (score, count) = (if strongBuy r \<noteq> 0
            then (score + real (strongBuy r) * 2, count + real (strongBuy r)) else (score, count));
          (score, count) = (if buy r \<noteq> 0
            then (score + real (buy r) * 1, count + real (buy r)) else (score, count));
          (score, count) = (if sell r \<noteq> 0
            then (score - real (sell r) * 1, count + real (sell r)) else (score, count));
          (score, count) = (if strongSell r \<noteq> 0
            then (score - real (strongSell r) * 2, count + real (strongSell r)) else (score, count))
      in (score, count))"

definition enhancedSentimentScore :: "recommendation list \<Rightarrow> real" where
  "enhancedSentimentScore recommendations =
     (if length recommendations = 0 then 0.5
      else
        let sc = foldl sentiment_step (0, 0) recommendations
        in if snd sc = 0 then 0.5
           else let raw = fst sc / (snd sc * 2) in max 0 (min 1 ((raw + 1) / 2)))"

text \<open>\<open>Math.round\<close> rounds to the nearest integer, halves towards plus infinity.\<close>

definition Math_round :: "real \<Rightarrow> real" where
  "Math_round x = of_int \<lfloor>x + 1 / 2\<rfloor>"

definition toStars :: "real \<Rightarrow> real" where
  "toStars x = (let scaled = max 0 (min 1 x) in Math_round (scaled * 5 * 10) / 10)"

subsection \<open>The fetched data\<close>

text \<open>
  The JSON answer of the backend, restricted to the fields \<open>handleSearch\<close> reads. A field
  that is missing, \<open>null\<close> or \<open>undefined\<close> is \<open>None\<close>; a numeric field is
  \<open>Some\<close> of its value. A row of \<open>historical\<close> is represented by its \<open>close\<close>.
\<close>

record quote_obj =
  q_regularMarketPrice :: "real option"
  q_trailingPE :: "real option"
  q_priceToBook :: "real option"
  q_priceToSalesTrailing12Months :: "real option"
  q_marketCap :: "real option"

record statistics_obj =
  s_trailingPE :: "real option"
  s_forwardPE :: "real option"
  s_priceToBook :: "real option"
  s_beta :: "real option"

record summaryDetail_obj =
  sd_forwardPE :: "real option"
  sd_beta :: "real option"

record financialData_obj =
  fd_returnOnEquity :: "real option"
  fd_debtToEquity :: "real option"
  fd_freeCashflow :: "real option"
  fd_earningsGrowth :: "real option"
  fd_revenueGrowth :: "real option"
  fd_targetMeanPrice :: "real option"

record recommendationTrend_obj =
  trend :: "recommendation list option"

record quoteSummary_obj =
  summaryDetail :: "summaryDetail_obj option"
  statistics :: "statistics_obj option"
  defaultKeyStatistics :: "statistics_obj option"
  financialData :: "financialData_obj option"
  recommendationTrend :: "recommendationTrend_obj option"

record api_data =
  d_quote :: "quote_obj option"
  d_quoteSummary :: "quoteSummary_obj option"
  d_price :: "real option"
  d_marketCap :: "real option"
  d_historical :: "real option list option"

text \<open>The empty object \<open>{}\<close> at each of the object types.\<close>

definition empty_quote :: quote_obj where
  "empty_quote = \<lparr>q_regularMarketPrice = None, q_trailingPE = None, q_priceToBook = None,
     q_priceToSalesTrailing12Months = None, q_marketCap = None\<rparr>"

definition empty_statistics :: statistics_obj where
  "empty_statistics = \<lparr>s_trailingPE = None, s_forwardPE = None, s_priceToBook = None,
     s_beta = None\<rparr>"

definition empty_summaryDetail :: summaryDetail_obj where
  "empty_summaryDetail = \<lparr>sd_forwardPE = None, sd_beta = None\<rparr>"

definition empty_financialData :: financialData_obj where
  "empty_financialData = \<lparr>fd_returnOnEquity = None, fd_debtToEquity = None,
     fd_freeCashflow = None, fd_earningsGrowth = None, fd_revenueGrowth = None,
     fd_targetMeanPrice = None\<rparr>"

definition empty_quoteSummary :: quoteSummary_obj where
  "empty_quoteSummary = \<lparr>summaryDetail = None, statistics = None,
     defaultKeyStatistics = None, financialData = None, recommendationTrend = None\<rparr>"

text \<open>
  JavaScript's view of an optional number: \<open>null\<close> converts to the number 0 in
  arithmetic and comparisons, and a value is truthy when it is a number other than 0.
  \<open>a || b\<close> is \<open>a\<close> when \<open>a\<close> is truthy and \<open>b\<close> otherwise; an object is always
  truthy, so \<open>o || {}\<close> replaces only a missing object.
\<close>

definition num :: "real option \<Rightarrow> real" where
  "num v = (case v of None \<Rightarrow> 0 | Some x \<Rightarrow> x)"

definition truthy :: "real option \<Rightarrow> bool" where
  "truthy v = (case v of None \<Rightarrow> False | Some x \<Rightarrow> x \<noteq> 0)"

definition js_or :: "real option \<Rightarrow> real option \<Rightarrow> real option" where
  "js_or a b = (if truthy a then a else b)"

definition obj_or :: "'a option \<Rightarrow> 'a \<Rightarrow> 'a" where
  "obj_or a b = (case a of None \<Rightarrow> b | Some x \<Rightarrow> x)"

subsection \<open>Extraction of the inputs\<close>

text \<open>The constants \<open>handleSearch\<close> binds before scoring, from \<open>currentPrice\<close> to
  \<open>closes\<close>.\<close>

record extracted =
  x_recommendations :: "recommendation list"
  x_currentPrice :: "real option"
  x_pe :: "real option"
  x_forwardPE :: "real option"
  x_pb :: "real option"
  x_ps :: "real option"
  x_beta :: real
  x_marketCap :: "real option"
  x_roe :: "real option"
  x_debtToEquity :: "real option"
  x_freeCashflow :: "real option"
  x_earningsGrowth :: "real option"
  x_revenueGrowth :: "real option"
  x_targetMeanPrice :: "real option"
  x_closes :: "real list"

fun closes_of :: "real option list \<Rightarrow> real list" where
  "closes_of [] = []"
| "closes_of (None # hs) = closes_of hs"
| "closes_of (Some c # hs) = c # closes_of hs"

definition extractInputs :: "api_data \<Rightarrow> extracted" where
  "extractInputs d =
     (let quote = obj_or (d_quote d) empty_quote;
          summary = obj_or (d_quoteSummary d) empty_quoteSummary;
          summaryDetail' = obj_or (summaryDetail summary) empty_summaryDetail;
          statistics' = obj_or (statistics summary)
                          (obj_or (defaultKeyStatistics summary) empty_statistics);
          financialData' = obj_or (financialData summary) empty_financialData;
          recommendations = obj_or (case recommendationTrend summary of None \<Rightarrow> None
                                    | Some rt \<Rightarrow> trend rt) []
      in \<lparr>x_recommendations = recommendations,
          x_currentPrice = js_or (js_or (q_regularMarketPrice quote) (d_price d)) None,
          x_pe = js_or (js_or (s_trailingPE statistics') (q_trailingPE quote)) None,
          x_forwardPE = js_or (js_or (s_forwardPE statistics') (sd_forwardPE summaryDetail')) None,
          x_pb = js_or (js_or (s_priceToBook statistics') (q_priceToBook quote)) None,
          x_ps = js_or (q_priceToSalesTrailing12Months quote) None,
          x_beta = num (js_or (js_or (s_beta statistics') (sd_beta summaryDetail')) (Some 1)),
          x_marketCap = js_or (js_or (q_marketCap quote) (d_marketCap d)) None,
          x_roe = js_or (fd_returnOnEquity financialData') None,
          x_debtToEquity = js_or (fd_debtToEquity financialData') None,
          x_freeCashflow = js_or (fd_freeCashflow financialData') None,
          x_earningsGrowth = js_or (fd_earningsGrowth financialData') None,
          x_revenueGrowth = js_or (fd_revenueGrowth financialData') None,
          x_targetMeanPrice = js_or (fd_targetMeanPrice financialData') None,
          x_closes = (case d_historical d of None \<Rightarrow> [] | Some hs \<Rightarrow> closes_of hs)\<rparr>)"

subsection \<open>Technical indicators of the price series\<close>

text \<open>The variables \<open>handleSearch\<close> initialises to their neutral values and computes only
  when there are more than 30 closes.\<close>

record indicators =
  i_momentum12m :: real
  i_momentum6m :: real
  i_momentum3m :: real
  i_rsi :: real
  i_ma50 :: "real option"
  i_ma200 :: "real option"
  i_volatility :: real
  i_sharpeRatio :: real
  i_maxDrawdown :: real
  i_macd :: macd_t
  i_bollingerBands :: bands

definition dailyReturns_of :: "real list \<Rightarrow> real list" where
  "dailyReturns_of closes =
     map (\<lambda>i. (closes ! i - closes ! (i - 1)) / closes ! (i - 1)) [1..<length closes]"

definition technicals :: "real list \<Rightarrow> indicators" where
  "technicals closes =
     (if length closes > 30 then
        let n = length closes;
            endp = closes ! (n - 1);
            dailyReturns = dailyReturns_of closes
        in \<lparr>i_momentum12m =
              (if n \<ge> 252 then (endp - closes ! (n - 252)) / closes ! (n - 252)
               else (endp - closes ! 0) / closes ! 0),
            i_momentum6m =
              (if n \<ge> 126 then (endp - closes ! (n - 126)) / closes ! (n - 126) else 0),
            i_momentum3m =
              (if n \<ge> 63 then (endp - closes ! (n - 63)) / closes ! (n - 63) else 0),
            i_rsi = calculateRSI closes 14,
            i_ma50 = (if n \<ge> 50
               then Some (foldl (\<lambda>a b. a + b) 0 (slice_last 50 closes) / 50) else None),
            i_ma200 = (if n \<ge> 200
               then Some (foldl (\<lambda>a b. a + b) 0 (slice_last 200 closes) / 200) else None),
            i_volatility = std dailyReturns * sqrt 252,
            i_sharpeRatio = calculateSharpeRatio dailyReturns 0.06,
            i_maxDrawdown = calculateMaxDrawdown closes,
            i_macd = calculateMACD closes,
            i_bollingerBands = calculateBollingerBands closes 20 2\<rparr>
      else
        \<lparr>i_momentum12m = 0, i_momentum6m = 0, i_momentum3m = 0, i_rsi = 50,
         i_ma50 = None, i_ma200 = None, i_volatility = 0, i_sharpeRatio = 0,
         i_maxDrawdown = 0,
         i_macd = \<lparr>m_macd = 0, m_signal = 0, m_histogram = 0\<rparr>,
         i_bollingerBands = \<lparr>upper = 0, middle = 0, lower = 0\<rparr>\<rparr>)"

subsection \<open>Component scorers\<close>

text \<open>Each scorer is one of the immediately invoked arrow functions of \<open>handleSearch\<close>;
  the pair \<open>sc\<close> is its \<open>(score, count)\<close>.\<close>

definition valComp_of ::
  "real option \<Rightarrow> real option \<Rightarrow> real option \<Rightarrow> real option \<Rightarrow> real option \<Rightarrow> real" where
  "valComp_of pe forwardPE pb ps roe =
     (let sc = (0.5, 0);
          sc = (if pe \<noteq> None \<and> num pe > 0
                then (fst sc + normalize_js (1 / num pe) (1 / 50) (1 / 5) * 0.35, snd sc + 0.35)
                else sc);
          sc = (if forwardPE \<noteq> None \<and> num forwardPE > 0
                then (fst sc + normalize_js (1 / num forwardPE) (1 / 40) (1 / 8) * 0.15,
                      snd sc + 0.15)
                else sc);
          sc = (if pb \<noteq> None \<and> num pb > 0
                then (fst sc + normalize_js (1 / num pb) (1 / 8) (1 / 0.8) * 0.25, snd sc + 0.25)
                else sc);
          sc = (if ps \<noteq> None \<and> num ps > 0
                then (fst sc + normalize_js (1 / num ps) (1 / 10) (1 / 0.5) * 0.15, snd sc + 0.15)
                else sc);
          sc = (if roe \<noteq> None \<and> num roe > 0
                then (fst sc + normalize_js (num roe) 0.05 0.30 * 0.10, snd sc + 0.10)
                else sc)
      in if snd sc > 0 then fst sc / (snd sc + (1 - snd sc) * 0.5) else 0.5)"

definition growthComp_of ::
  "real option \<Rightarrow> real option \<Rightarrow> real option \<Rightarrow> real option \<Rightarrow> real" where
  "growthComp_of earningsGrowth revenueGrowth freeCashflow roe =
     (let sc = (0, 0);
          sc = (if earningsGrowth \<noteq> None
                then (fst sc + normalize_js (num earningsGrowth) (- 0.3) 0.5 * 0.4, snd sc + 0.4)
                else sc);
          sc = (if revenueGrowth \<noteq> None
                then (fst sc + normalize_js (num revenueGrowth) (- 0.2) 0.4 * 0.3, snd sc + 0.3)
                else sc);
          sc = (if freeCashflow \<noteq> None \<and> num freeCashflow > 0
                then (fst sc + 0.15, snd sc + 0.15)
                else sc);
          sc = (if roe \<noteq> None
                then (fst sc + normalize_js (num roe) 0 0.35 * 0.15, snd sc + 0.15)
                else sc)
      in if snd sc > 0 then fst sc / snd sc else 0.5)"

definition momentumComp_of :: "indicators \<Rightarrow> real option \<Rightarrow> real option \<Rightarrow> real" where
  "momentumComp_of ind currentPrice targetMeanPrice =
     (let score = 0;
          score = score + normalize_js (i_momentum12m ind) (- 0.5) 1.0 * 0.20;
          score = score + normalize_js (i_momentum6m ind) (- 0.3) 0.8 * 0.15;
          score = score + normalize_js (i_momentum3m ind) (- 0.2) 0.5 * 0.10;
          score = score + normalize_js (i_rsi ind) 20 80 * 0.20;
          score = score + (if m_histogram (i_macd ind) > 0 then 0.10 else 0.05);
          score = (if truthy (i_ma50 ind) \<and> truthy (i_ma200 ind) \<and> truthy currentPrice
                   then score +
                     (if num currentPrice > num (i_ma50 ind) \<and> num (i_ma50 ind) > num (i_ma200 ind)
                      then 0.15
                      else if num currentPrice > num (i_ma50 ind)
                                \<or> num (i_ma50 ind) > num (i_ma200 ind)
                      then 0.075 else 0.025)
                   else score + 0.05);
          score = (if truthy targetMeanPrice \<and> truthy currentPrice
                   then score +
                     normalize_js ((num targetMeanPrice - num currentPrice) / num currentPrice)
                       (- 0.3) 0.5 * 0.05
                   else score)
      in max 0 (min 1 score))"

definition riskComp_of :: "indicators \<Rightarrow> real \<Rightarrow> real option \<Rightarrow> real" where
  "riskComp_of ind beta debtToEquity =
     (let risk = 0;
          risk = risk + (if i_volatility ind \<noteq> 0
                         then normalize_js (i_volatility ind) 0.1 0.8 else 0.15) * 0.30;
          risk = risk + normalize_js \<bar>beta - 1\<bar> 0 1.5 * 0.20;
          risk = risk + normalize_js (i_maxDrawdown ind) 0 0.6 * 0.25;
          risk = risk + (if i_sharpeRatio ind > 0
                         then 1 - normalize_js (i_sharpeRatio ind) (- 1) 3 else 1) * 0.15;
          risk = risk + (if debtToEquity \<noteq> None
                         then normalize_js (num debtToEquity) 0 2 else 0.5) * 0.10
      in max 0 (min 1 risk))"

subsection \<open>Composite score, projection and confidence\<close>

datatype riskLabel_t = HighRisk | HighRiskHighReward | Moderate | Balanced | Cautious

definition riskLabel_of :: "real \<Rightarrow> riskLabel_t" where
  "riskLabel_of score =
     (if score \<ge> 0.85 then HighRiskHighReward
      else if score \<ge> 0.70 then Moderate
      else if score \<ge> 0.50 then Balanced
      else if score \<ge> 0.30 then Cautious
      else HighRisk)"

definition rawScore_of :: "real \<Rightarrow> real \<Rightarrow> real \<Rightarrow> real \<Rightarrow> real \<Rightarrow> real" where
  "rawScore_of valComp' growthComp' momentumComp' sentimentComp' riskComp' =
     0.30 * valComp' + 0.25 * growthComp' + 0.15 * momentumComp' + 0.15 * sentimentComp'
       - 0.15 * riskComp'"

definition score_of :: "real \<Rightarrow> real" where
  "score_of rawScore = max 0 (min 1 (rawScore * 1.2 + 0.1))"

definition projReturn_of ::
  "real \<Rightarrow> real \<Rightarrow> real \<Rightarrow> real \<Rightarrow> real option \<Rightarrow> real option \<Rightarrow> real" where
  "projReturn_of momentum12m growthComp' valComp' sentimentComp' targetMeanPrice currentPrice =
     (let projection = momentum12m * 0.25 + (growthComp' - 0.5) * 0.35
                         + (valComp' - 0.5) * 0.30 + (sentimentComp' - 0.5) * 0.10;
          projection = (if truthy targetMeanPrice \<and> truthy currentPrice
                        then projection * 0.6
                          + ((num targetMeanPrice - num currentPrice) / num currentPrice) * 0.4
                        else projection)
      in Math_round (projection * 100))"

definition confidence_of ::
  "real list \<Rightarrow> recommendation list \<Rightarrow> real option \<Rightarrow> real option \<Rightarrow> real option
     \<Rightarrow> real option \<Rightarrow> int" where
  "confidence_of closes recommendations pe pb earningsGrowth targetMeanPrice =
     (let conf = 50;
          conf = (if length closes \<ge> 200 then conf + 15 else conf);
          conf = (if length recommendations \<ge> 3 then conf + 10 else conf);
          conf = (if pe \<noteq> None \<and> pb \<noteq> None then conf + 10 else conf);
          conf = (if earningsGrowth \<noteq> None then conf + 10 else conf);
          conf = (if targetMeanPrice \<noteq> None then conf + 5 else conf)
      in min 95 conf)"

text \<open>An entry of the explanation list, before it is formatted into a string: the label
  and the number (or the MACD direction) the template string is built from.\<close>

datatype explanation_item =
    ExplPE real
  | ExplFwdPE real
  | ExplPB real
  | ExplROE real
  | Expl12MReturn real
  | ExplRSI real
  | ExplMACDBullish bool
  | ExplEarningsGrowth real
  | ExplAnalystSentiment real
  | ExplSharpe real

definition explanation_of ::
  "extracted \<Rightarrow> indicators \<Rightarrow> real \<Rightarrow> explanation_item list" where
  "explanation_of x ind sentimentComp' =
     (if x_pe x \<noteq> None then [ExplPE (num (x_pe x))] else [])
     @ (if x_forwardPE x \<noteq> None then [ExplFwdPE (num (x_forwardPE x))] else [])
     @ (if x_pb x \<noteq> None then [ExplPB (num (x_pb x))] else [])
     @ (if x_roe x \<noteq> None then [ExplROE (num (x_roe x) * 100)] else [])
     @ (if i_momentum12m ind \<noteq> 0 then [Expl12MReturn (i_momentum12m ind * 100)] else [])
     @ (if i_rsi ind \<noteq> 0 then [ExplRSI (i_rsi ind)] else [])
     @ (if m_macd (i_macd ind) \<noteq> 0
        then [ExplMACDBullish (m_histogram (i_macd ind) > 0)] else [])
     @ (if x_earningsGrowth x \<noteq> None
        then [ExplEarningsGrowth (num (x_earningsGrowth x) * 100)] else [])
     @ [ExplAnalystSentiment (sentimentComp' * 100)]
     @ (if i_sharpeRatio ind \<noteq> 0 then [ExplSharpe (i_sharpeRatio ind)] else [])"

text \<open>The object passed to \<open>setResult\<close>, without the symbol string.\<close>

record rating =
  currentPrice :: "real option"
  pe :: "real option"
  pb :: "real option"
  beta :: real
  marketCap :: "real option"
  valComp :: real
  growthComp :: real
  momentumComp :: real
  sentimentComp :: real
  riskComp :: real
  score :: real
  stars :: real
  riskLabel :: riskLabel_t
  projReturn :: real
  confidence :: int
  explanation :: "explanation_item list"
  recommendationsCount :: nat
  rsi :: real
  sharpeRatio :: real
  maxDrawdown :: real
  targetMeanPrice :: "real option"
  macd :: macd_t
  bollingerBands :: bands
  ma50 :: "real option"
  ma200 :: "real option"

definition rate :: "extracted \<Rightarrow> rating" where
  "rate x =
     (let ind = technicals (x_closes x);
          sentiment = enhancedSentimentScore (x_recommendations x);
          valComp' = valComp_of (x_pe x) (x_forwardPE x) (x_pb x) (x_ps x) (x_roe x);
          growthComp' = growthComp_of (x_earningsGrowth x) (x_revenueGrowth x)
                          (x_freeCashflow x) (x_roe x);
          momentumComp' = momentumComp_of ind (x_currentPrice x) (x_targetMeanPrice x);
          sentimentComp' = sentiment;
          riskComp' = riskComp_of ind (x_beta x) (x_debtToEquity x);
          rawScore = rawScore_of valComp' growthComp' momentumComp' sentimentComp' riskComp';
          score' = score_of rawScore
      in \<lparr>currentPrice = x_currentPrice x, pe = x_pe x, pb = x_pb x, beta = x_beta x,
          marketCap = x_marketCap x,
          valComp = valComp', growthComp = growthComp', momentumComp = momentumComp',
          sentimentComp = sentimentComp', riskComp = riskComp',
          score = score', stars = toStars score', riskLabel = riskLabel_of score',
          projReturn = projReturn_of (i_momentum12m ind) growthComp' valComp' sentimentComp'
                         (x_targetMeanPrice x) (x_currentPrice x),
          confidence = confidence_of (x_closes x) (x_recommendations x) (x_pe x) (x_pb x)
                         (x_earningsGrowth x) (x_targetMeanPrice x),
          explanation = explanation_of x ind sentimentComp',
          recommendationsCount = length (x_recommendations x),
          rsi = i_rsi ind, sharpeRatio = i_sharpeRatio ind, maxDrawdown = i_maxDrawdown ind,
          targetMeanPrice = x_targetMeanPrice x,
          macd = i_macd ind, bollingerBands = i_bollingerBands ind,
          ma50 = i_ma50 ind, ma200 = i_ma200 ind\<rparr>)"

text \<open>\<open>handleSearch\<close> after the fetch: an answer with neither \<open>quote\<close> nor
  \<open>quoteSummary\<close> raises, anything else is rated.\<close>

datatype error = NoDataFound

definition handleSearch :: "api_data \<Rightarrow> error + rating" where
  "handleSearch d =
     (if d_quote d = None \<and> d_quoteSummary d = None then Inl NoDataFound
      else Inr (rate (extractInputs d)))"

subsection \<open>Reference formulas\<close>

text \<open>
  The sentiment aggregator as the specification words it: every unit of \<open>strongBuy\<close>
  adds 2 to the score and 1 to the count, \<open>buy\<close> adds 1 and 1, \<open>sell\<close> subtracts 1 and
  adds 1, \<open>strongSell\<close> subtracts 2 and adds 1, \<open>hold\<close> adds nothing.
\<close>

definition sentiment_score_spec :: "recommendation list \<Rightarrow> real" where
  "sentiment_score_spec recs =
     sum_list (map (\<lambda>r. 2 * real (strongBuy r) + real (buy r) - real (sell r)
                          - 2 * real (strongSell r)) recs)"

definition sentiment_count_spec :: "recommendation list \<Rightarrow> real" where
  "sentiment_count_spec recs =
     sum_list (map (\<lambda>r. real (strongBuy r) + real (buy r) + real (sell r)
                          + real (strongSell r)) recs)"

text \<open>
  The RSI inputs as the specification words them: the price changes over the trailing
  \<open>period\<close> window, the sum of the positive ones, and the absolute value of the sum of
  the negative ones.
\<close>

definition trailing_changes :: "real list \<Rightarrow> nat \<Rightarrow> real list" where
  "trailing_changes prices period =
     map (\<lambda>i. prices ! i - prices ! (i - 1)) [length prices - period ..< length prices]"

definition gains_spec :: "real list \<Rightarrow> nat \<Rightarrow> real" where
  "gains_spec prices period =
     sum_list (map (\<lambda>c. if c > 0 then c else 0) (trailing_changes prices period))"

definition losses_spec :: "real list \<Rightarrow> nat \<Rightarrow> real" where
  "losses_spec prices period =
     \<bar>sum_list (map (\<lambda>c. if c < 0 then c else 0) (trailing_changes prices period))\<bar>"

text \<open>Rounding to one decimal place, halves upwards.\<close>

definition round_1dp :: "real \<Rightarrow> real" where
  "round_1dp x = of_int \<lfloor>x * 10 + 1 / 2\<rfloor> / 10"

subsection \<open>Sample inputs\<close>

text \<open>An answer whose \<open>quote\<close> is the empty object and that holds nothing else: no
  fundamentals, no recommendations, no price history.\<close>

definition no_fundamentals :: api_data where
  "no_fundamentals = \<lparr>d_quote = Some empty_quote, d_quoteSummary = None, d_price = None,
     d_marketCap = None, d_historical = None\<rparr>"

text \<open>An answer \<open>d\<close> with its \<open>quote\<close> replaced, and an answer whose
  \<open>quoteSummary\<close> is \<open>sm\<close> with one of its sub-objects replaced.\<close>

definition with_quote :: "api_data \<Rightarrow> quote_obj \<Rightarrow> api_data" where
  "with_quote d q = d\<lparr>d_quote := Some q\<rparr>"

definition with_statistics :: "api_data \<Rightarrow> quoteSummary_obj \<Rightarrow> statistics_obj \<Rightarrow> api_data" where
  "with_statistics d sm s = d\<lparr>d_quoteSummary := Some (sm\<lparr>statistics := Some s\<rparr>)\<rparr>"

definition with_summaryDetail ::
  "api_data \<Rightarrow> quoteSummary_obj \<Rightarrow> summaryDetail_obj \<Rightarrow> api_data" where
  "with_summaryDetail d sm sd = d\<lparr>d_quoteSummary := Some (sm\<lparr>summaryDetail := Some sd\<rparr>)\<rparr>"

definition with_financialData ::
  "api_data \<Rightarrow> quoteSummary_obj \<Rightarrow> financialData_obj \<Rightarrow> api_data" where
  "with_financialData d sm fd = d\<lparr>d_quoteSummary := Some (sm\<lparr>financialData := Some fd\<rparr>)\<rparr>"

text \<open>Answers that hold only a price history: 31 closes, and 253 closes.\<close>

definition short_history :: api_data where
  "short_history = \<lparr>d_quote = Some empty_quote, d_quoteSummary = None, d_price = None,
     d_marketCap = None, d_historical = Some (replicate 30 (Some 100) @ [Some 110])\<rparr>"

definition long_history :: api_data where
  "long_history = \<lparr>d_quote = Some empty_quote, d_quoteSummary = None, d_price = None,
     d_marketCap = None,
     d_historical = Some (Some 50 # replicate 251 (Some 100) @ [Some 110])\<rparr>"

text \<open>An answer whose only fundamental is a trailing P/E of 5 in \<open>quote\<close>.\<close>

definition cheap_stock :: api_data where
  "cheap_stock = \<lparr>d_quote = Some (empty_quote\<lparr>q_trailingPE := Some 5\<rparr>),
     d_quoteSummary = None, d_price = None, d_marketCap = None, d_historical = None\<rparr>"

section \<open>Properties\<close>

subsection \<open>Normalisation\<close>

lemma normalize_range: "0 \<le> normalize_js x mn mx \<and> normalize_js x mn mx \<le> 1"
  by (simp add: normalize_js_def)

lemma normalize_unit: "0 \<le> y \<Longrightarrow> y \<le> 1 \<Longrightarrow> normalize_js y 0 1 = y"
  by (simp add: normalize_js_def)

lemma normalize_mono:
  assumes "mn \<le> mx" and "x \<le> y"
  shows "normalize_js x mn mx \<le> normalize_js y mn mx"
proof (cases "mx = mn")
  case True
  then show ?thesis by (simp add: normalize_js_def)
next
  case False
  with assms have pos: "0 < mx - mn" by simp
  from assms have "(x - mn) / (mx - mn) \<le> (y - mn) / (mx - mn)"
    using pos by (simp add: divide_right_mono)
  then show ?thesis
    using False by (auto simp: normalize_js_def max_def min_def)
qed

text \<open>
  Claim C5, as stated, asks for \<open>normalize(normalize(x,min,max),min,max) =
  normalize(x,min,max)\<close> for every range and for monotonicity in \<open>x\<close> for every range.
  Both fail: over the range \<open>[0,2]\<close> the value 1 is mapped to 1/2 and 1/2 to 1/4, and
  over the reversed range \<open>min = 1, max = 0\<close> the function decreases.
\<close>

theorem normalize_idempotent_counterexample:
  "normalize_js (normalize_js 1 0 2) 0 2 \<noteq> normalize_js 1 0 2
   \<and> \<not> normalize_js 0 1 0 \<le> normalize_js 1 1 0"
  by (simp add: normalize_js_def)

text \<open>
  Claim C5, amended: \<open>normalize\<close> returns 0.5 on a degenerate range and otherwise the
  quotient \<open>(x - min) / (max - min)\<close> clamped to \<open>[0,1]\<close>; its result always lies in
  \<open>[0,1]\<close>; applying it again over the unit range \<open>[0,1]\<close> changes nothing; and it
  is monotonic non-decreasing in \<open>x\<close> whenever \<open>min \<le> max\<close>.
\<close>

theorem normalize_spec:
  "normalize_js x mn mn = 0.5
   \<and> (mx \<noteq> mn \<longrightarrow> normalize_js x mn mx = max 0 (min 1 ((x - mn) / (mx - mn))))
   \<and> 0 \<le> normalize_js x mn mx \<and> normalize_js x mn mx \<le> 1
   \<and> normalize_js (normalize_js x mn mx) 0 1 = normalize_js x mn mx
   \<and> (mn \<le> mx \<and> x \<le> y \<longrightarrow> normalize_js x mn mx \<le> normalize_js y mn mx)"
  using normalize_range[of x mn mx] normalize_mono[of mn mx x y]
  by (simp add: normalize_unit) (simp add: normalize_js_def)

theorem normalize_spec_witness:
  "normalize_js 3 2 2 = 0.5 \<and> normalize_js 1 0 2 = 1 / 2
   \<and> normalize_js (normalize_js 1 0 2) 0 1 = normalize_js 1 0 2
   \<and> normalize_js 1 0 2 \<le> normalize_js 3 0 2"
proof -
  have h: "(2::real) \<noteq> 0" "(0::real) \<le> 2 \<and> (1::real) \<le> 3" by simp_all
  from normalize_spec[of 3 2 2 2] have a: "normalize_js 3 2 2 = 0.5" by simp
  from normalize_spec[of 1 0 2 3] h show ?thesis using a by simp
qed

subsection \<open>Sentiment aggregator\<close>

lemma sentiment_step_eq:
  "sentiment_step (s, c) r =
     (s + (2 * real (strongBuy r) + real (buy r) - real (sell r) - 2 * real (strongSell r)),
      c + (real (strongBuy r) + real (buy r) + real (sell r) + real (strongSell r)))"
  by (simp add: Let_def)

lemma sentiment_foldl:
  "foldl sentiment_step (s, c) recs =
     (s + sentiment_score_spec recs, c + sentiment_count_spec recs)"
proof (induction recs arbitrary: s c)
  case Nil
  then show ?case by (simp add: sentiment_score_spec_def sentiment_count_spec_def)
next
  case (Cons r recs)
  show ?case
    unfolding foldl_Cons sentiment_step_eq Cons.IH
    by (simp add: sentiment_score_spec_def sentiment_count_spec_def)
qed

text \<open>
  Claim C4: the sentiment aggregator returns exactly 0.5 for the empty list, exactly 1 for
  a single period with only \<open>strongBuy\<close> counts and exactly 0 for a single period with
  only \<open>strongSell\<close> counts; its loop accumulates the score and the count of the
  reference formulas (\<open>strongBuy\<close> +2/+1, \<open>buy\<close> +1/+1, \<open>sell\<close> -1/+1,
  \<open>strongSell\<close> -2/+1, \<open>hold\<close> nothing); and when the count is positive the result is
  \<open>clamp((score / (count * 2) + 1) / 2, 0, 1)\<close>.
\<close>

theorem sentiment_spec:
  "enhancedSentimentScore [] = 0.5
   \<and> (0 < n \<longrightarrow> enhancedSentimentScore
         [\<lparr>strongBuy = n, buy = 0, hold = h, sell = 0, strongSell = 0\<rparr>] = 1)
   \<and> (0 < n \<longrightarrow> enhancedSentimentScore
         [\<lparr>strongBuy = 0, buy = 0, hold = h, sell = 0, strongSell = n\<rparr>] = 0)
   \<and> foldl sentiment_step (0, 0) recs = (sentiment_score_spec recs, sentiment_count_spec recs)
   \<and> (0 < sentiment_count_spec recs \<longrightarrow> enhancedSentimentScore recs =
         max 0 (min 1 ((sentiment_score_spec recs / (sentiment_count_spec recs * 2) + 1) / 2)))"
proof -
  have e: "enhancedSentimentScore [] = 0.5"
    by (simp add: enhancedSentimentScore_def)
  have sb: "0 < n \<longrightarrow> enhancedSentimentScore
         [\<lparr>strongBuy = n, buy = 0, hold = h, sell = 0, strongSell = 0\<rparr>] = 1"
    by (simp add: enhancedSentimentScore_def Let_def)
  have ss: "0 < n \<longrightarrow> enhancedSentimentScore
         [\<lparr>strongBuy = 0, buy = 0, hold = h, sell = 0, strongSell = n\<rparr>] = 0"
    by (simp add: enhancedSentimentScore_def Let_def)
  have f: "foldl sentiment_step (0, 0) recs = (sentiment_score_spec recs, sentiment_count_spec recs)"
    by (simp add: sentiment_foldl)
  have g: "0 < sentiment_count_spec recs \<longrightarrow> enhancedSentimentScore recs =
         max 0 (min 1 ((sentiment_score_spec recs / (sentiment_count_spec recs * 2) + 1) / 2))"
  proof
    assume pos: "0 < sentiment_count_spec recs"
    then have "recs \<noteq> []" by (auto simp: sentiment_count_spec_def)
    then show "enhancedSentimentScore recs =
         max 0 (min 1 ((sentiment_score_spec recs / (sentiment_count_spec recs * 2) + 1) / 2))"
      using pos by (simp add: enhancedSentimentScore_def f Let_def)
  qed
  from e sb ss f g show ?thesis by blast
qed

theorem sentiment_spec_witness:
  "enhancedSentimentScore [\<lparr>strongBuy = 3, buy = 0, hold = 0, sell = 0, strongSell = 0\<rparr>] = 1
   \<and> enhancedSentimentScore [\<lparr>strongBuy = 0, buy = 0, hold = 0, sell = 0, strongSell = 2\<rparr>] = 0
   \<and> 0 < sentiment_count_spec [\<lparr>strongBuy = 1, buy = 2, hold = 7, sell = 1, strongSell = 0\<rparr>]
   \<and> enhancedSentimentScore [\<lparr>strongBuy = 1, buy = 2, hold = 7, sell = 1, strongSell = 0\<rparr>] = 11 / 16"
proof -
  have c: "0 < sentiment_count_spec [\<lparr>strongBuy = 1, buy = 2, hold = 7, sell = 1, strongSell = 0\<rparr>]"
    by (simp add: sentiment_count_spec_def)
  have a: "enhancedSentimentScore [\<lparr>strongBuy = 3, buy = 0, hold = 0, sell = 0, strongSell = 0\<rparr>] = 1"
    using sentiment_spec[of 3 0 "[]"] by simp
  have b: "enhancedSentimentScore [\<lparr>strongBuy = 0, buy = 0, hold = 0, sell = 0, strongSell = 2\<rparr>] = 0"
    using sentiment_spec[of 2 0 "[]"] by simp
  have d: "enhancedSentimentScore [\<lparr>strongBuy = 1, buy = 2, hold = 7, sell = 1, strongSell = 0\<rparr>] = 11 / 16"
    using sentiment_spec[of 1 0 "[\<lparr>strongBuy = 1, buy = 2, hold = 7, sell = 1, strongSell = 0\<rparr>]"] c
    by (simp add: sentiment_count_spec_def sentiment_score_spec_def)
  from a b c d show ?thesis by blast
qed


subsection \<open>Relative strength index\<close>

lemma rsi_foldl:
  "foldl (rsi_step prices) (g, l) js =
     (g + sum_list (map (\<lambda>c. if c > 0 then c else 0) (map (\<lambda>i. prices ! i - prices ! (i - 1)) js)),
      l - sum_list (map (\<lambda>c. if c < 0 then c else 0) (map (\<lambda>i. prices ! i - prices ! (i - 1)) js)))"
  by (induction js arbitrary: g l) (auto simp: Let_def)

lemma neg_part_sum_nonpos: "sum_list (map (\<lambda>c::real. if c < 0 then c else 0) cs) \<le> 0"
  by (induction cs) auto

lemma pos_part_sum_nonneg: "0 \<le> sum_list (map (\<lambda>c::real. if c > 0 then c else 0) cs)"
  by (induction cs) auto

lemma rsi_foldl_spec:
  "foldl (rsi_step prices) (0, 0) [length prices - period ..< length prices] =
     (gains_spec prices period, losses_spec prices period)"
  using neg_part_sum_nonpos[of "trailing_changes prices period"]
  by (simp add: rsi_foldl gains_spec_def losses_spec_def trailing_changes_def)

lemma gains_nonneg: "0 \<le> gains_spec prices period"
  by (simp add: gains_spec_def pos_part_sum_nonneg)

lemma losses_nonneg: "0 \<le> losses_spec prices period"
  by (simp add: losses_spec_def)

lemma calculateRSI_unfold:
  "calculateRSI prices period =
     (if length prices < period + 1 then 50
      else if losses_spec prices period / real period = 0 then 100
      else 100 - 100 / (1 + (gains_spec prices period / real period)
                             / (losses_spec prices period / real period)))"
  by (simp add: calculateRSI_def rsi_foldl_spec Let_def)

lemma rsi_formula_range:
  assumes "0 \<le> (g::real)" "0 < l"
  shows "0 \<le> 100 - 100 / (1 + g / l) \<and> 100 - 100 / (1 + g / l) \<le> 100"
proof -
  have "1 \<le> 1 + g / l" using assms by simp
  then have "100 / (1 + g / l) \<le> 100" "0 \<le> 100 / (1 + g / l)"
    by (simp_all add: divide_le_eq)
  then show ?thesis by simp
qed

lemma calculateRSI_range: "0 \<le> calculateRSI prices 14 \<and> calculateRSI prices 14 \<le> 100"
proof -
  have g: "0 \<le> gains_spec prices 14 / 14" using gains_nonneg[of prices 14] by simp
  have l: "losses_spec prices 14 / 14 \<noteq> 0 \<Longrightarrow> 0 < losses_spec prices 14 / 14"
    using losses_nonneg[of prices 14] by simp
  show ?thesis
    using rsi_formula_range[OF g l] by (simp add: calculateRSI_unfold)
qed

lemma increasing_no_losses:
  assumes "sorted_wrt (<) prices" "period < length prices"
  shows "losses_spec prices period = 0"
proof -
  have "\<And>i. i \<in> set [length prices - period ..< length prices] \<Longrightarrow>
          \<not> prices ! i - prices ! (i - 1) < 0"
  proof -
    fix i assume "i \<in> set [length prices - period ..< length prices]"
    then have i: "0 < i" "i < length prices" using assms(2) by auto
    then have "prices ! (i - 1) < prices ! i"
      using assms(1) by (simp add: sorted_wrt_iff_nth_less)
    then show "\<not> prices ! i - prices ! (i - 1) < 0" by simp
  qed
  then have "\<forall>c \<in> set (trailing_changes prices period). \<not> c < 0"
    by (auto simp: trailing_changes_def)
  then have "sum_list (map (\<lambda>c. if c < 0 then c else 0) (trailing_changes prices period))
     = sum_list (map (\<lambda>c. 0) (trailing_changes prices period))"
    by (intro arg_cong[where f = sum_list] map_cong) auto
  then show ?thesis by (simp add: losses_spec_def)
qed

text \<open>
  Claim C6: with period 14 the RSI of every price series lies in \<open>[0,100]\<close>; a series of
  fewer than 15 points gives the neutral 50; when the average loss over the trailing window
  is 0 the result is 100, in particular for a strictly increasing series of at least 15
  points; otherwise it is \<open>100 - 100 / (1 + avgGain / avgLoss)\<close>, where the gains are the
  sum of the positive changes and the losses the absolute sum of the negative changes, each
  divided by the period.
\<close>

theorem calculateRSI_spec:
  "0 \<le> calculateRSI prices 14 \<and> calculateRSI prices 14 \<le> 100
   \<and> (length prices < 15 \<longrightarrow> calculateRSI prices 14 = 50)
   \<and> (15 \<le> length prices \<and> losses_spec prices 14 / 14 = 0 \<longrightarrow> calculateRSI prices 14 = 100)
   \<and> (15 \<le> length prices \<and> sorted_wrt (<) prices \<longrightarrow> calculateRSI prices 14 = 100)
   \<and> (15 \<le> length prices \<and> losses_spec prices 14 / 14 \<noteq> 0 \<longrightarrow>
        calculateRSI prices 14 =
          100 - 100 / (1 + (gains_spec prices 14 / 14) / (losses_spec prices 14 / 14)))"
  using calculateRSI_range[of prices] increasing_no_losses[of prices 14]
  by (simp add: calculateRSI_unfold)

theorem calculateRSI_spec_witness:
  "calculateRSI [1, 2, 3] 14 = 50
   \<and> calculateRSI [1, 2, 3, 4, 5, 6, 7, 8, 9, 10, 11, 12, 13, 14, 15, 16] 14 = 100
   \<and> losses_spec [9, 8, 9, 9, 9, 9, 9, 9, 9, 9, 9, 9, 9, 9, 12] 14 / 14 \<noteq> 0
   \<and> calculateRSI [9, 8, 9, 9, 9, 9, 9, 9, 9, 9, 9, 9, 9, 9, 12] 14 = 80"
proof -
  have a: "calculateRSI [1, 2, 3] 14 = 50"
    using calculateRSI_spec[of "[1, 2, 3]"] by simp
  have "sorted_wrt (<) [1, 2, 3, 4, 5, 6, 7, 8, 9, 10, 11, 12, 13, 14, 15, 16 :: real]"
    by simp
  then have b: "calculateRSI [1, 2, 3, 4, 5, 6, 7, 8, 9, 10, 11, 12, 13, 14, 15, 16] 14 = 100"
    using calculateRSI_spec[of "[1, 2, 3, 4, 5, 6, 7, 8, 9, 10, 11, 12, 13, 14, 15, 16]"] by simp
  have l: "losses_spec [9, 8, 9, 9, 9, 9, 9, 9, 9, 9, 9, 9, 9, 9, 12] 14 = 1"
    by (simp add: losses_spec_def trailing_changes_def upt_rec)
  have g: "gains_spec [9, 8, 9, 9, 9, 9, 9, 9, 9, 9, 9, 9, 9, 9, 12] 14 = 4"
    by (simp add: gains_spec_def trailing_changes_def upt_rec)
  have c: "calculateRSI [9, 8, 9, 9, 9, 9, 9, 9, 9, 9, 9, 9, 9, 9, 12] 14 = 80"
    using calculateRSI_spec[of "[9, 8, 9, 9, 9, 9, 9, 9, 9, 9, 9, 9, 9, 9, 12]"]
    by (simp add: l g)
  from a b c l show ?thesis by simp
qed

subsection \<open>Composite score, stars and confidence\<close>

lemma score_of_range: "0 \<le> score_of raw \<and> score_of raw \<le> 1"
  by (simp add: score_of_def)

lemma toStars_unit: "0 \<le> s \<Longrightarrow> s \<le> 1 \<Longrightarrow> toStars s = round_1dp (s * 5)"
  by (simp add: toStars_def round_1dp_def Math_round_def mult.assoc)

lemma round_1dp_steps:
  assumes "0 \<le> s" "s \<le> 1"
  shows "0 \<le> \<lfloor>s * 5 * 10 + 1 / 2\<rfloor> \<and> \<lfloor>s * 5 * 10 + 1 / 2\<rfloor> \<le> 50"
proof -
  have "0 \<le> s * 5 * 10 + 1 / 2" using assms by simp
  then have lo: "0 \<le> \<lfloor>s * 5 * 10 + 1 / 2\<rfloor>" by simp
  have "s * 5 * 10 + 1 / 2 < 51" using assms by simp
  then have "\<lfloor>s * 5 * 10 + 1 / 2\<rfloor> < 51" by (simp add: floor_less_iff)
  with lo show ?thesis by simp
qed

lemma rate_score:
  "score (rate x) = score_of (rawScore_of (valComp (rate x)) (growthComp (rate x))
     (momentumComp (rate x)) (sentimentComp (rate x)) (riskComp (rate x)))"
  by (simp add: rate_def Let_def)

lemma rate_stars: "stars (rate x) = toStars (score (rate x))"
  by (simp add: rate_def Let_def)

lemma handleSearch_Inr: "handleSearch d = Inr r \<Longrightarrow> r = rate (extractInputs d)"
  by (simp add: handleSearch_def split: if_splits)

text \<open>
  Claim C7: in every rating the final score is
  \<open>clamp(raw * 1.2 + 0.1, 0, 1)\<close> with \<open>raw = 0.30 * valuation + 0.25 * growth +
  0.15 * momentum + 0.15 * sentiment - 0.15 * risk\<close>, and the star rating is the score
  times 5 rounded to one decimal, so it lies in \<open>[0,5]\<close> and is a multiple of 0.1.
\<close>

theorem composite_score_spec:
  assumes "handleSearch d = Inr r"
  shows "score r = max 0 (min 1 ((0.30 * valComp r + 0.25 * growthComp r + 0.15 * momentumComp r
             + 0.15 * sentimentComp r - 0.15 * riskComp r) * 1.2 + 0.1))
   \<and> stars r = round_1dp (score r * 5)
   \<and> 0 \<le> stars r \<and> stars r \<le> 5
   \<and> (\<exists>k::int. 0 \<le> k \<and> k \<le> 50 \<and> stars r = of_int k / 10)"
proof -
  from assms have r: "r = rate (extractInputs d)" by (rule handleSearch_Inr)
  have sc: "score r = max 0 (min 1 ((0.30 * valComp r + 0.25 * growthComp r
             + 0.15 * momentumComp r + 0.15 * sentimentComp r - 0.15 * riskComp r) * 1.2 + 0.1))"
    unfolding r rate_score by (simp add: score_of_def rawScore_of_def)
  have rng: "0 \<le> score r" "score r \<le> 1"
    unfolding r rate_score using score_of_range by simp_all
  have st: "stars r = round_1dp (score r * 5)"
    unfolding r rate_stars using rng[unfolded r] by (rule toStars_unit)
  define k where "k = \<lfloor>score r * 5 * 10 + 1 / 2\<rfloor>"
  have k: "0 \<le> k" "k \<le> 50" using round_1dp_steps[OF rng] by (simp_all add: k_def)
  have sk: "stars r = of_int k / 10"
    by (simp add: st round_1dp_def k_def mult.assoc)
  have "0 \<le> stars r" "stars r \<le> 5" using k by (simp_all add: sk)
  with sc st k sk show ?thesis by blast
qed

theorem composite_score_spec_witness:
  "handleSearch no_fundamentals = Inr (rate (extractInputs no_fundamentals))
   \<and> stars (rate (extractInputs no_fundamentals))
       = round_1dp (score (rate (extractInputs no_fundamentals)) * 5)
   \<and> 0 \<le> stars (rate (extractInputs no_fundamentals))
   \<and> stars (rate (extractInputs no_fundamentals)) \<le> 5"
proof -
  have h: "handleSearch no_fundamentals = Inr (rate (extractInputs no_fundamentals))"
    by (simp add: handleSearch_def no_fundamentals_def)
  from composite_score_spec[OF h] h show ?thesis by blast
qed

lemma rate_confidence:
  "confidence (rate x) = confidence_of (x_closes x) (x_recommendations x) (x_pe x) (x_pb x)
                         (x_earningsGrowth x) (x_targetMeanPrice x)"
  by (simp add: rate_def Let_def)

text \<open>
  Claim C8: the confidence of every rating is 50 plus 15 for at least 200 closes, plus 10
  for at least 3 recommendation periods, plus 10 when both P/E and P/B are known, plus 10
  when the earnings growth is known, plus 5 when a target price exists, capped at 95; it is
  an integer between 50 and 95.
\<close>

theorem confidence_spec:
  assumes "handleSearch d = Inr r"
  shows "confidence r = min 95 (50
            + (if 200 \<le> length (x_closes (extractInputs d)) then 15 else 0)
            + (if 3 \<le> length (x_recommendations (extractInputs d)) then 10 else 0)
            + (if x_pe (extractInputs d) \<noteq> None \<and> x_pb (extractInputs d) \<noteq> None then 10 else 0)
            + (if x_earningsGrowth (extractInputs d) \<noteq> None then 10 else 0)
            + (if x_targetMeanPrice (extractInputs d) \<noteq> None then 5 else 0))
   \<and> 50 \<le> confidence r \<and> confidence r \<le> 95"
proof -
  from assms have r: "r = rate (extractInputs d)" by (rule handleSearch_Inr)
  show ?thesis
    unfolding r rate_confidence by (simp add: confidence_of_def Let_def)
qed

theorem confidence_spec_witness:
  "handleSearch no_fundamentals = Inr (rate (extractInputs no_fundamentals))
   \<and> confidence (rate (extractInputs no_fundamentals)) = 50"
proof -
  have h: "handleSearch no_fundamentals = Inr (rate (extractInputs no_fundamentals))"
    by (simp add: handleSearch_def no_fundamentals_def)
  have x: "x_closes (extractInputs no_fundamentals) = []"
      "x_recommendations (extractInputs no_fundamentals) = []"
      "x_pe (extractInputs no_fundamentals) = None"
      "x_earningsGrowth (extractInputs no_fundamentals) = None"
      "x_targetMeanPrice (extractInputs no_fundamentals) = None"
    by (simp_all add: extractInputs_def no_fundamentals_def obj_or_def js_or_def truthy_def
          empty_quote_def empty_quoteSummary_def empty_financialData_def empty_statistics_def
          empty_summaryDetail_def)
  from confidence_spec[OF h] h show ?thesis by (simp add: x)
qed

subsection \<open>Zero and missing fundamentals\<close>

lemma obj_or_simps: "obj_or (Some x) b = x" "obj_or None b = b"
  by (simp_all add: obj_or_def)

lemma js_or_zero: "js_or (Some 0) b = js_or None b"
  by (simp add: js_or_def truthy_def)

lemma js_or_zero_right: "js_or (js_or a (Some 0)) c = js_or (js_or a None) c"
  by (simp add: js_or_def truthy_def)

lemma handleSearch_cong:
  assumes "extractInputs d = extractInputs d'"
    and "(d_quote d = None \<and> d_quoteSummary d = None)
           = (d_quote d' = None \<and> d_quoteSummary d' = None)"
  shows "handleSearch d = handleSearch d'"
  using assms by (simp add: handleSearch_def)

lemma zero_pe_statistics:
  "handleSearch (with_statistics d sm (s\<lparr>s_trailingPE := Some 0\<rparr>))
     = handleSearch (with_statistics d sm (s\<lparr>s_trailingPE := None\<rparr>))"
  by (rule handleSearch_cong)
     (simp_all add: with_statistics_def extractInputs_def Let_def obj_or_simps js_or_zero)

lemma zero_pe_quote:
  "handleSearch (with_quote d (q\<lparr>q_trailingPE := Some 0\<rparr>))
     = handleSearch (with_quote d (q\<lparr>q_trailingPE := None\<rparr>))"
  by (rule handleSearch_cong)
     (simp_all add: with_quote_def extractInputs_def Let_def obj_or_simps js_or_zero_right)

lemma zero_pb_statistics:
  "handleSearch (with_statistics d sm (s\<lparr>s_priceToBook := Some 0\<rparr>))
     = handleSearch (with_statistics d sm (s\<lparr>s_priceToBook := None\<rparr>))"
  by (rule handleSearch_cong)
     (simp_all add: with_statistics_def extractInputs_def Let_def obj_or_simps js_or_zero)

lemma zero_pb_quote:
  "handleSearch (with_quote d (q\<lparr>q_priceToBook := Some 0\<rparr>))
     = handleSearch (with_quote d (q\<lparr>q_priceToBook := None\<rparr>))"
  by (rule handleSearch_cong)
     (simp_all add: with_quote_def extractInputs_def Let_def obj_or_simps js_or_zero_right)

lemma zero_earningsGrowth:
  "handleSearch (with_financialData d sm (fd\<lparr>fd_earningsGrowth := Some 0\<rparr>))
     = handleSearch (with_financialData d sm (fd\<lparr>fd_earningsGrowth := None\<rparr>))"
  by (rule handleSearch_cong)
     (simp_all add: with_financialData_def extractInputs_def Let_def obj_or_simps js_or_zero)

lemma zero_revenueGrowth:
  "handleSearch (with_financialData d sm (fd\<lparr>fd_revenueGrowth := Some 0\<rparr>))
     = handleSearch (with_financialData d sm (fd\<lparr>fd_revenueGrowth := None\<rparr>))"
  by (rule handleSearch_cong)
     (simp_all add: with_financialData_def extractInputs_def Let_def obj_or_simps js_or_zero)

lemma zero_beta_statistics:
  "handleSearch (with_statistics d sm (s\<lparr>s_beta := Some 0\<rparr>))
     = handleSearch (with_statistics d sm (s\<lparr>s_beta := None\<rparr>))"
  by (rule handleSearch_cong)
     (simp_all add: with_statistics_def extractInputs_def Let_def obj_or_simps js_or_zero)

lemma zero_beta_summaryDetail:
  "handleSearch (with_summaryDetail d sm (sd\<lparr>sd_beta := Some 0\<rparr>))
     = handleSearch (with_summaryDetail d sm (sd\<lparr>sd_beta := None\<rparr>))"
  by (rule handleSearch_cong)
     (simp_all add: with_summaryDetail_def extractInputs_def Let_def obj_or_simps js_or_zero_right)

lemma beta_default:
  "x_beta (extractInputs (with_statistics d
      (sm\<lparr>summaryDetail := Some (sd\<lparr>sd_beta := None\<rparr>)\<rparr>) (s\<lparr>s_beta := None\<rparr>))) = 1"
  "x_beta (extractInputs (with_statistics d
      (sm\<lparr>summaryDetail := Some (sd\<lparr>sd_beta := Some 0\<rparr>)\<rparr>) (s\<lparr>s_beta := Some 0\<rparr>))) = 1"
  by (simp_all add: with_statistics_def extractInputs_def Let_def obj_or_simps js_or_def
        truthy_def num_def)

lemma pe_null:
  "x_pe (extractInputs (with_statistics (with_quote d (q\<lparr>q_trailingPE := Some 0\<rparr>)) sm
      (s\<lparr>s_trailingPE := Some 0\<rparr>))) = None"
  by (simp add: with_statistics_def with_quote_def extractInputs_def Let_def obj_or_simps js_or_def
        truthy_def num_def)

text \<open>
  Claim C9: a fundamental whose value is exactly 0 is rated as if it were missing. For the
  trailing P/E and the P/B (in \<open>statistics\<close> or in \<open>quote\<close>), the earnings and revenue
  growth, and the beta (in \<open>statistics\<close> or in \<open>summaryDetail\<close>), \<open>handleSearch\<close>
  returns the same result for the value 0 and for the missing field; a P/E that is 0 in
  both places is extracted as \<open>null\<close>, and a beta that is missing or 0 in both places is
  extracted as the default 1.
\<close>

theorem zero_scored_as_missing:
  "handleSearch (with_statistics d sm (s\<lparr>s_trailingPE := Some 0\<rparr>))
     = handleSearch (with_statistics d sm (s\<lparr>s_trailingPE := None\<rparr>))
   \<and> handleSearch (with_quote d (q\<lparr>q_trailingPE := Some 0\<rparr>))
     = handleSearch (with_quote d (q\<lparr>q_trailingPE := None\<rparr>))
   \<and> handleSearch (with_statistics d sm (s\<lparr>s_priceToBook := Some 0\<rparr>))
     = handleSearch (with_statistics d sm (s\<lparr>s_priceToBook := None\<rparr>))
   \<and> handleSearch (with_quote d (q\<lparr>q_priceToBook := Some 0\<rparr>))
     = handleSearch (with_quote d (q\<lparr>q_priceToBook := None\<rparr>))
   \<and> handleSearch (with_financialData d sm (fd\<lparr>fd_earningsGrowth := Some 0\<rparr>))
     = handleSearch (with_financialData d sm (fd\<lparr>fd_earningsGrowth := None\<rparr>))
   \<and> handleSearch (with_financialData d sm (fd\<lparr>fd_revenueGrowth := Some 0\<rparr>))
     = handleSearch (with_financialData d sm (fd\<lparr>fd_revenueGrowth := None\<rparr>))
   \<and> handleSearch (with_statistics d sm (s\<lparr>s_beta := Some 0\<rparr>))
     = handleSearch (with_statistics d sm (s\<lparr>s_beta := None\<rparr>))
   \<and> handleSearch (with_summaryDetail d sm (sd\<lparr>sd_beta := Some 0\<rparr>))
     = handleSearch (with_summaryDetail d sm (sd\<lparr>sd_beta := None\<rparr>))
   \<and> x_pe (extractInputs (with_statistics (with_quote d (q\<lparr>q_trailingPE := Some 0\<rparr>)) sm
        (s\<lparr>s_trailingPE := Some 0\<rparr>))) = None
   \<and> x_beta (extractInputs (with_statistics d
        (sm\<lparr>summaryDetail := Some (sd\<lparr>sd_beta := None\<rparr>)\<rparr>) (s\<lparr>s_beta := None\<rparr>))) = 1
   \<and> x_beta (extractInputs (with_statistics d
        (sm\<lparr>summaryDetail := Some (sd\<lparr>sd_beta := Some 0\<rparr>)\<rparr>) (s\<lparr>s_beta := Some 0\<rparr>))) = 1"
  by (intro conjI)
     (rule zero_pe_statistics zero_pe_quote zero_pb_statistics zero_pb_quote zero_earningsGrowth
        zero_revenueGrowth zero_beta_statistics zero_beta_summaryDetail pe_null beta_default)+

subsection \<open>Momentum windows\<close>

lemma rate_momentumComp:
  "momentumComp (rate x) =
     momentumComp_of (technicals (x_closes x)) (x_currentPrice x) (x_targetMeanPrice x)"
  by (simp add: rate_def Let_def)

lemma rate_projReturn:
  "projReturn (rate x) =
     projReturn_of (i_momentum12m (technicals (x_closes x))) (growthComp (rate x))
       (valComp (rate x)) (sentimentComp (rate x)) (x_targetMeanPrice x) (x_currentPrice x)"
  by (simp add: rate_def Let_def)

lemma momentum12m_short:
  assumes "30 < length closes" "length closes < 252"
  shows "i_momentum12m (technicals closes) = (last closes - hd closes) / hd closes"
proof -
  from assms have ne: "closes \<noteq> []" by auto
  then show ?thesis
    using assms by (simp add: technicals_def Let_def last_conv_nth hd_conv_nth)
qed

lemma momentum12m_long:
  assumes "252 \<le> length closes"
  shows "i_momentum12m (technicals closes) =
           (last closes - closes ! (length closes - 252)) / closes ! (length closes - 252)"
proof -
  from assms have ne: "closes \<noteq> []" by auto
  then show ?thesis
    using assms by (simp add: technicals_def Let_def last_conv_nth)
qed

lemma momentum6m_short: "length closes < 126 \<Longrightarrow> i_momentum6m (technicals closes) = 0"
  by (simp add: technicals_def Let_def)

lemma momentum3m_short: "length closes < 63 \<Longrightarrow> i_momentum3m (technicals closes) = 0"
  by (simp add: technicals_def Let_def)

text \<open>
  Claim C10: for a series of positive closes with more than 30 and fewer than 252 points the
  12-month momentum is the return over the whole series, \<open>(last - first) / first\<close>; from
  252 points on it is the return over the trailing 252 closes; the 6-month and 3-month
  momenta are 0 below 126 and 63 points; and this 12-month momentum is the one the momentum
  scorer and the projected return are computed from.
\<close>

theorem momentum_windows_spec:
  assumes "\<forall>p \<in> set (x_closes x). 0 < p"
  shows "(30 < length (x_closes x) \<and> length (x_closes x) < 252 \<longrightarrow>
            i_momentum12m (technicals (x_closes x))
              = (last (x_closes x) - hd (x_closes x)) / hd (x_closes x))
   \<and> (252 \<le> length (x_closes x) \<longrightarrow>
            i_momentum12m (technicals (x_closes x))
              = (last (x_closes x) - x_closes x ! (length (x_closes x) - 252))
                  / x_closes x ! (length (x_closes x) - 252))
   \<and> (length (x_closes x) < 126 \<longrightarrow> i_momentum6m (technicals (x_closes x)) = 0)
   \<and> (length (x_closes x) < 63 \<longrightarrow> i_momentum3m (technicals (x_closes x)) = 0)
   \<and> momentumComp (rate x) =
        momentumComp_of (technicals (x_closes x)) (x_currentPrice x) (x_targetMeanPrice x)
   \<and> projReturn (rate x) =
        projReturn_of (i_momentum12m (technicals (x_closes x))) (growthComp (rate x))
          (valComp (rate x)) (sentimentComp (rate x)) (x_targetMeanPrice x) (x_currentPrice x)"
  using momentum12m_short[of "x_closes x"] momentum12m_long[of "x_closes x"]
    momentum6m_short[of "x_closes x"] momentum3m_short[of "x_closes x"]
    rate_momentumComp[of x] rate_projReturn[of x]
  by blast

lemma closes_of_replicate: "closes_of (replicate n (Some c) @ hs) = replicate n c @ closes_of hs"
  by (induction n) simp_all

lemma short_history_closes:
  "x_closes (extractInputs short_history) = replicate 30 100 @ [110]"
  using closes_of_replicate[of 30 100 "[Some 110]"]
  by (simp add: extractInputs_def short_history_def Let_def)

lemma long_history_closes:
  "x_closes (extractInputs long_history) = 50 # replicate 251 100 @ [110]"
  using closes_of_replicate[of 251 100 "[Some 110]"]
  by (simp add: extractInputs_def long_history_def Let_def)

theorem momentum_windows_spec_witness:
  "length (x_closes (extractInputs short_history)) = 31
   \<and> i_momentum12m (technicals (x_closes (extractInputs short_history))) = 1 / 10
   \<and> i_momentum6m (technicals (x_closes (extractInputs short_history))) = 0
   \<and> i_momentum3m (technicals (x_closes (extractInputs short_history))) = 0
   \<and> length (x_closes (extractInputs long_history)) = 253
   \<and> i_momentum12m (technicals (x_closes (extractInputs long_history))) = 1 / 10"
proof -
  have p1: "\<forall>p \<in> set (x_closes (extractInputs short_history)). 0 < p"
    by (auto simp: short_history_closes)
  have n1: "length (x_closes (extractInputs short_history)) = 31"
    by (simp add: short_history_closes)
  have p2: "\<forall>p \<in> set (x_closes (extractInputs long_history)). 0 < p"
    by (auto simp: long_history_closes)
  have n2: "length (x_closes (extractInputs long_history)) = 253"
    by (simp add: long_history_closes)
  have e2: "x_closes (extractInputs long_history) ! 1 = 100"
    by (simp add: long_history_closes nth_append)
  have a: "i_momentum12m (technicals (x_closes (extractInputs short_history))) = 1 / 10
     \<and> i_momentum6m (technicals (x_closes (extractInputs short_history))) = 0
     \<and> i_momentum3m (technicals (x_closes (extractInputs short_history))) = 0"
    using momentum_windows_spec[OF p1] n1 by (simp add: short_history_closes)
  have b: "i_momentum12m (technicals (x_closes (extractInputs long_history))) = 1 / 10"
    using momentum_windows_spec[OF p2] n2 e2 by (simp add: long_history_closes)
  from n1 a n2 b show ?thesis by blast
qed

subsection \<open>Ratings of sparse answers\<close>

lemma technicals_Nil:
  "technicals [] =
     \<lparr>i_momentum12m = 0, i_momentum6m = 0, i_momentum3m = 0, i_rsi = 50,
      i_ma50 = None, i_ma200 = None, i_volatility = 0, i_sharpeRatio = 0,
      i_maxDrawdown = 0,
      i_macd = \<lparr>m_macd = 0, m_signal = 0, m_histogram = 0\<rparr>,
      i_bollingerBands = \<lparr>upper = 0, middle = 0, lower = 0\<rparr>\<rparr>"
  by (simp add: technicals_def)

lemma valComp_absent: "valComp_of None None None None None = 0.5"
  by (simp add: valComp_of_def)

lemma growthComp_absent: "growthComp_of None None None None = 0.5"
  by (simp add: growthComp_of_def)

lemma momentumComp_neutral: "momentumComp_of (technicals []) cp None = 1553 / 4620"
  by (simp add: momentumComp_of_def technicals_Nil normalize_js_def truthy_def Let_def)

lemma riskComp_neutral: "riskComp_of (technicals []) 1 None = 49 / 200"
  by (simp add: riskComp_of_def technicals_Nil normalize_js_def Let_def)

lemma neutral_score:
  "score_of (rawScore_of 0.5 0.5 (1553 / 4620) 0.5 (49 / 200)) = 413033 / 770000"
  by (simp add: score_of_def rawScore_of_def)

lemma rate_components:
  "valComp (rate x) = valComp_of (x_pe x) (x_forwardPE x) (x_pb x) (x_ps x) (x_roe x)"
  "growthComp (rate x) = growthComp_of (x_earningsGrowth x) (x_revenueGrowth x)
                          (x_freeCashflow x) (x_roe x)"
  "sentimentComp (rate x) = enhancedSentimentScore (x_recommendations x)"
  "riskComp (rate x) = riskComp_of (technicals (x_closes x)) (x_beta x) (x_debtToEquity x)"
  by (simp_all add: rate_def Let_def)

lemma extract_quote_only:
  assumes "d_quote d = Some q" "d_quoteSummary d = None"
  shows "x_recommendations (extractInputs d) = []"
    "x_pe (extractInputs d) = js_or (q_trailingPE q) None"
    "x_forwardPE (extractInputs d) = None"
    "x_pb (extractInputs d) = js_or (q_priceToBook q) None"
    "x_ps (extractInputs d) = js_or (q_priceToSalesTrailing12Months q) None"
    "x_beta (extractInputs d) = 1"
    "x_roe (extractInputs d) = None"
    "x_debtToEquity (extractInputs d) = None"
    "x_freeCashflow (extractInputs d) = None"
    "x_earningsGrowth (extractInputs d) = None"
    "x_revenueGrowth (extractInputs d) = None"
    "x_targetMeanPrice (extractInputs d) = None"
  using assms
  by (simp_all add: extractInputs_def Let_def obj_or_def js_or_def truthy_def num_def
        empty_quoteSummary_def empty_statistics_def empty_summaryDetail_def
        empty_financialData_def)

text \<open>
  Claim C3, as stated, makes all five sub-scores 0.5 and the final score the rescale of
  \<open>0.5 * (0.30 + 0.25 + 0.15 + 0.15) - 0.15 * 0.5\<close> when nothing is known. On the answer
  that holds nothing, the momentum and risk sub-scores are not 0.5 and the score is not
  that rescale.
\<close>

theorem neutral_rating_counterexample:
  "handleSearch no_fundamentals = Inr (rate (extractInputs no_fundamentals))
   \<and> momentumComp (rate (extractInputs no_fundamentals)) \<noteq> 0.5
   \<and> riskComp (rate (extractInputs no_fundamentals)) \<noteq> 0.5
   \<and> score (rate (extractInputs no_fundamentals))
        \<noteq> score_of (0.5 * (0.30 + 0.25 + 0.15 + 0.15) - 0.15 * 0.5)"
proof -
  have q: "d_quote no_fundamentals = Some empty_quote" "d_quoteSummary no_fundamentals = None"
    by (simp_all add: no_fundamentals_def)
  have c: "x_closes (extractInputs no_fundamentals) = []"
    by (simp add: extractInputs_def no_fundamentals_def Let_def)
  have e: "q_trailingPE empty_quote = None" "q_priceToBook empty_quote = None"
    "q_priceToSalesTrailing12Months empty_quote = None"
    by (simp_all add: empty_quote_def)
  have j: "js_or None None = None" by (simp add: js_or_def truthy_def)
  have h: "handleSearch no_fundamentals = Inr (rate (extractInputs no_fundamentals))"
    by (simp add: handleSearch_def q)
  have m: "momentumComp (rate (extractInputs no_fundamentals)) = 1553 / 4620"
    by (simp add: rate_momentumComp c extract_quote_only[OF q] momentumComp_neutral)
  have r: "riskComp (rate (extractInputs no_fundamentals)) = 49 / 200"
    by (simp add: rate_components c extract_quote_only[OF q] riskComp_neutral)
  have v: "valComp (rate (extractInputs no_fundamentals)) = 0.5"
    by (simp add: rate_components extract_quote_only[OF q] e j valComp_absent)
  have g: "growthComp (rate (extractInputs no_fundamentals)) = 0.5"
    by (simp add: rate_components extract_quote_only[OF q] growthComp_absent)
  have se: "sentimentComp (rate (extractInputs no_fundamentals)) = 0.5"
    by (simp add: rate_components extract_quote_only[OF q] enhancedSentimentScore_def)
  have s: "score (rate (extractInputs no_fundamentals)) = 413033 / 770000"
    unfolding rate_score v g se m r by (rule neutral_score)
  have t: "score_of (0.5 * (0.30 + 0.25 + 0.15 + 0.15) - 0.15 * 0.5) = 13 / 25"
    by (simp add: score_of_def)
  show ?thesis unfolding m r s t using h by simp
qed

text \<open>
  Claim C3, amended: when the answer has a \<open>quote\<close> without P/E, P/B and P/S, no
  \<open>quoteSummary\<close> (so no other fundamentals and no recommendations) and no closes,
  \<open>handleSearch\<close> returns a rating whose valuation, growth and sentiment sub-scores are
  0.5, whose momentum sub-score is 1553/4620 (the neutral defaults of its seven terms),
  whose risk sub-score is 0.245, whose final score is the rescale of the raw score of those
  five values, 413033/770000, and whose confidence is 50.
\<close>

theorem absent_data_rating:
  assumes "d_quote d = Some q" and "d_quoteSummary d = None"
    and "q_trailingPE q = None" and "q_priceToBook q = None"
    and "q_priceToSalesTrailing12Months q = None"
    and "x_closes (extractInputs d) = []"
  shows "\<exists>r. handleSearch d = Inr r
    \<and> valComp r = 0.5 \<and> growthComp r = 0.5 \<and> sentimentComp r = 0.5
    \<and> momentumComp r = 1553 / 4620 \<and> riskComp r = 49 / 200
    \<and> score r = score_of (rawScore_of 0.5 0.5 (1553 / 4620) 0.5 (49 / 200))
    \<and> score r = 413033 / 770000
    \<and> confidence r = 50"
proof -
  let ?r = "rate (extractInputs d)"
  note x = extract_quote_only[OF assms(1,2)]
  have j: "js_or None None = None" by (simp add: js_or_def truthy_def)
  have h: "handleSearch d = Inr ?r" by (simp add: handleSearch_def assms(1))
  have v: "valComp ?r = 0.5" by (simp add: rate_components x assms j valComp_absent)
  have g: "growthComp ?r = 0.5" by (simp add: rate_components x growthComp_absent)
  have se: "sentimentComp ?r = 0.5"
    by (simp add: rate_components x enhancedSentimentScore_def)
  have m: "momentumComp ?r = 1553 / 4620"
    by (simp add: rate_momentumComp x assms(6) momentumComp_neutral)
  have ri: "riskComp ?r = 49 / 200"
    by (simp add: rate_components x assms(6) riskComp_neutral)
  have s: "score ?r = score_of (rawScore_of 0.5 0.5 (1553 / 4620) 0.5 (49 / 200))"
    unfolding rate_score v g se m ri ..
  have s': "score ?r = 413033 / 770000" unfolding s by (rule neutral_score)
  have c: "confidence ?r = 50"
    by (simp add: rate_confidence x assms j confidence_of_def)
  from h v g se m ri s s' c show ?thesis by blast
qed

theorem absent_data_rating_witness:
  "\<exists>r. handleSearch no_fundamentals = Inr r
    \<and> valComp r = 0.5 \<and> growthComp r = 0.5 \<and> sentimentComp r = 0.5
    \<and> momentumComp r = 1553 / 4620 \<and> riskComp r = 49 / 200
    \<and> score r = 413033 / 770000
    \<and> confidence r = 50"
proof -
  have q: "d_quote no_fundamentals = Some empty_quote" "d_quoteSummary no_fundamentals = None"
    by (simp_all add: no_fundamentals_def)
  have e: "q_trailingPE empty_quote = None" "q_priceToBook empty_quote = None"
    "q_priceToSalesTrailing12Months empty_quote = None"
    by (simp_all add: empty_quote_def)
  have c: "x_closes (extractInputs no_fundamentals) = []"
    by (simp add: extractInputs_def no_fundamentals_def Let_def)
  from absent_data_rating[OF q e c] show ?thesis by blast
qed

text \<open>
  Claim C1 asks for every sub-score to lie in \<open>[0,1]\<close>. The valuation scorer starts its
  score at 0.5 and divides by \<open>count + (1 - count) * 0.5\<close>: with a trailing P/E of 5 as
  the only fundamental it returns \<open>(0.5 + 0.35) / (0.35 + 0.65 * 0.5) = 34/27\<close>, which
  is above 1.
\<close>

theorem valuation_exceeds_one:
  "handleSearch cheap_stock = Inr (rate (extractInputs cheap_stock))
   \<and> valComp (rate (extractInputs cheap_stock)) = 34 / 27
   \<and> \<not> valComp (rate (extractInputs cheap_stock)) \<le> 1"
proof -
  have q: "d_quote cheap_stock = Some (empty_quote\<lparr>q_trailingPE := Some 5\<rparr>)"
    "d_quoteSummary cheap_stock = None"
    by (simp_all add: cheap_stock_def)
  have h: "handleSearch cheap_stock = Inr (rate (extractInputs cheap_stock))"
    by (simp add: handleSearch_def q)
  have v: "valComp (rate (extractInputs cheap_stock)) = 34 / 27"
    by (simp add: rate_components extract_quote_only[OF q] empty_quote_def js_or_def truthy_def
          valComp_of_def num_def normalize_js_def Let_def)
  show ?thesis unfolding v using h by simp
qed

subsection \<open>Indicators of a constant series\<close>

lemma ema_loop_const: "ema_loop k c (replicate n c) = replicate n c"
  by (induction n) (simp_all add: Let_def algebra_simps)

lemma calculateEMA_const: "calculateEMA (replicate n c) p = replicate n c"
  by (cases n) (simp_all add: calculateEMA_def ema_loop_const)

lemma calculateMACD_const:
  "calculateMACD (replicate n c) = \<lparr>m_macd = 0, m_signal = 0, m_histogram = 0\<rparr>"
proof (cases "n < 26")
  case True
  then show ?thesis by (simp add: calculateMACD_def)
next
  case False
  then have n: "n \<noteq> 0" by simp
  show ?thesis
    using False n
    by (simp add: calculateMACD_def calculateEMA_const map_replicate_const Let_def)
qed

lemma foldl_add_const:
  "foldl (\<lambda>a b. a + b) a (replicate m (c::real)) = a + real m * c"
  by (induction m arbitrary: a) (simp_all add: algebra_simps)

lemma foldl_sqdev_const:
  "foldl (\<lambda>sum val. sum + (val - c) ^ 2) a (replicate m (c::real)) = a"
  by (induction m arbitrary: a) simp_all

lemma calculateBollingerBands_const:
  assumes "20 \<le> n"
  shows "calculateBollingerBands (replicate n c) 20 2 = \<lparr>upper = c, middle = c, lower = c\<rparr>"
proof -
  have sl: "slice_last 20 (replicate n c) = replicate 20 c"
    using assms by (simp add: slice_last_def)
  show ?thesis
    using assms
    by (simp add: calculateBollingerBands_def sl foldl_add_const foldl_sqdev_const Let_def)
qed

lemma dd_foldl_const: "foldl dd_step (0, c) (replicate m c) = (0, c)"
  by (induction m) (simp_all add: Let_def)

lemma calculateMaxDrawdown_const: "calculateMaxDrawdown (replicate n c) = 0"
  by (cases n) (simp_all add: calculateMaxDrawdown_def dd_foldl_const)

lemma losses_const: "losses_spec (replicate n c) period = 0"
proof -
  have "\<forall>d \<in> set (trailing_changes (replicate n c) period). \<not> d < 0"
    by (auto simp: trailing_changes_def)
  then have "sum_list (map (\<lambda>d. if d < 0 then d else 0) (trailing_changes (replicate n c) period))
     = sum_list (map (\<lambda>d. 0) (trailing_changes (replicate n c) period))"
    by (intro arg_cong[where f = sum_list] map_cong) auto
  then show ?thesis by (simp add: losses_spec_def)
qed

lemma calculateRSI_const: "15 \<le> n \<Longrightarrow> calculateRSI (replicate n c) 14 = 100"
  by (simp add: calculateRSI_unfold losses_const)

lemma technicals_fields:
  assumes "30 < length closes"
  shows "i_rsi (technicals closes) = calculateRSI closes 14"
    "i_macd (technicals closes) = calculateMACD closes"
    "i_bollingerBands (technicals closes) = calculateBollingerBands closes 20 2"
    "i_maxDrawdown (technicals closes) = calculateMaxDrawdown closes"
  using assms by (simp_all add: technicals_def Let_def)

text \<open>
  Claim C2, as stated, gives the series of 300 closes equal to 100 an RSI of 50. The gains
  and the losses are both 0 there, the guard \<open>avgLoss === 0\<close> applies, and
  \<open>calculateRSI\<close> returns 100.
\<close>

theorem constant_series_counterexample:
  "calculateRSI (replicate 300 100) 14 \<noteq> 50"
  by (simp add: calculateRSI_const)

text \<open>
  Claim C2, amended: for the series of 300 closes equal to 100 the RSI is 100 (by the
  \<open>avgLoss === 0\<close> branch, without a division by zero), the MACD histogram is 0, the
  Bollinger bands collapse to 100, 100, 100, and the maximum drawdown is 0, both for the
  indicator functions and for the values \<open>handleSearch\<close> computes from them.
\<close>

theorem constant_series_indicators:
  "calculateRSI (replicate 300 100) 14 = 100
   \<and> m_histogram (calculateMACD (replicate 300 100)) = 0
   \<and> calculateBollingerBands (replicate 300 100) 20 2
        = \<lparr>upper = 100, middle = 100, lower = 100\<rparr>
   \<and> calculateMaxDrawdown (replicate 300 100) = 0
   \<and> i_rsi (technicals (replicate 300 100)) = 100
   \<and> m_histogram (i_macd (technicals (replicate 300 100))) = 0
   \<and> i_bollingerBands (technicals (replicate 300 100))
        = \<lparr>upper = 100, middle = 100, lower = 100\<rparr>
   \<and> i_maxDrawdown (technicals (replicate 300 100)) = 0"
proof -
  let ?cl = "replicate 300 (100::real)"
  have n: "30 < length ?cl" "15 \<le> (300::nat)" "20 \<le> (300::nat)" by simp_all
  have f: "calculateRSI ?cl 14 = 100" by (rule calculateRSI_const[OF n(2)])
  have m: "m_histogram (calculateMACD ?cl) = 0" by (simp add: calculateMACD_const)
  have b: "calculateBollingerBands ?cl 20 2 = \<lparr>upper = 100, middle = 100, lower = 100\<rparr>"
    by (rule calculateBollingerBands_const[OF n(3)])
  have d: "calculateMaxDrawdown ?cl = 0" by (rule calculateMaxDrawdown_const)
  show ?thesis
    unfolding technicals_fields[OF n(1)] f m b d by simp
qed



subsection \<open>Ranges of the growth, momentum, sentiment and risk sub-scores\<close>

lemma clamp_range: "0 \<le> max 0 (min 1 (x::real)) \<and> max 0 (min 1 x) \<le> 1"
  by simp

lemma weighted_step:
  assumes "0 \<le> fst sc" "fst sc \<le> snd sc" "0 \<le> t" "t \<le> 1" "0 \<le> (w::real)"
  shows "0 \<le> fst (if b then (fst sc + t * w, snd sc + w) else sc)
    \<and> fst (if b then (fst sc + t * w, snd sc + w) else sc)
        \<le> snd (if b then (fst sc + t * w, snd sc + w) else sc)"
proof -
  have "t * w \<le> 1 * w" using assms(4,5) by (rule mult_right_mono)
  then have "t * w \<le> w" by simp
  moreover from assms(3,5) have "0 \<le> t * w" by simp
  ultimately show ?thesis using assms(1,2) by simp
qed

lemma flat_step:
  assumes "0 \<le> fst sc" "fst sc \<le> snd sc" "0 \<le> (w::real)"
  shows "0 \<le> fst (if b then (fst sc + w, snd sc + w) else sc)
    \<and> fst (if b then (fst sc + w, snd sc + w) else sc)
        \<le> snd (if b then (fst sc + w, snd sc + w) else sc)"
  using assms by simp

lemma growthComp_range:
  "0 \<le> growthComp_of eg rg fcf roe \<and> growthComp_of eg rg fcf roe \<le> 1"
proof -
  define s0 where "s0 = (0::real, 0::real)"
  define s1 where "s1 = (if eg \<noteq> None
     then (fst s0 + normalize_js (num eg) (- 0.3) 0.5 * 0.4, snd s0 + 0.4) else s0)"
  define s2 where "s2 = (if rg \<noteq> None
     then (fst s1 + normalize_js (num rg) (- 0.2) 0.4 * 0.3, snd s1 + 0.3) else s1)"
  define s3 where "s3 = (if fcf \<noteq> None \<and> num fcf > 0
     then (fst s2 + 0.15, snd s2 + 0.15) else s2)"
  define s4 where "s4 = (if roe \<noteq> None
     then (fst s3 + normalize_js (num roe) 0 0.35 * 0.15, snd s3 + 0.15) else s3)"
  have g: "growthComp_of eg rg fcf roe = (if snd s4 > 0 then fst s4 / snd s4 else 0.5)"
    unfolding growthComp_of_def Let_def s4_def s3_def s2_def s1_def s0_def ..
  have i0: "0 \<le> fst s0" "fst s0 \<le> snd s0" by (simp_all add: s0_def)
  have i1: "0 \<le> fst s1 \<and> fst s1 \<le> snd s1"
    unfolding s1_def using i0 normalize_range by (intro weighted_step) simp_all
  have i2: "0 \<le> fst s2 \<and> fst s2 \<le> snd s2"
    unfolding s2_def using i1 normalize_range by (intro weighted_step) simp_all
  have i3: "0 \<le> fst s3 \<and> fst s3 \<le> snd s3"
    unfolding s3_def using i2 by (intro flat_step) simp_all
  have i4: "0 \<le> fst s4 \<and> fst s4 \<le> snd s4"
    unfolding s4_def using i3 normalize_range by (intro weighted_step) simp_all
  show ?thesis
    unfolding g using i4 by (simp add: divide_le_eq)
qed

lemma momentumComp_range:
  "0 \<le> momentumComp_of ind cp tp \<and> momentumComp_of ind cp tp \<le> 1"
  unfolding momentumComp_of_def Let_def by (rule clamp_range)

lemma riskComp_range: "0 \<le> riskComp_of ind b dte \<and> riskComp_of ind b dte \<le> 1"
  unfolding riskComp_of_def Let_def by (rule clamp_range)

lemma sentiment_range:
  "0 \<le> enhancedSentimentScore recs \<and> enhancedSentimentScore recs \<le> 1"
proof -
  have "0 \<le> (0.5::real) \<and> (0.5::real) \<le> 1" by simp
  then show ?thesis
    unfolding enhancedSentimentScore_def Let_def using clamp_range by presburger
qed


lemma clamped_subscores_range:
  "0 \<le> growthComp (rate x) \<and> growthComp (rate x) \<le> 1
   \<and> 0 \<le> momentumComp (rate x) \<and> momentumComp (rate x) \<le> 1
   \<and> 0 \<le> sentimentComp (rate x) \<and> sentimentComp (rate x) \<le> 1
   \<and> 0 \<le> riskComp (rate x) \<and> riskComp (rate x) \<le> 1"
  unfolding rate_components rate_momentumComp
  using growthComp_range momentumComp_range sentiment_range riskComp_range by blast

end
